theory Spec2Isabelle
  imports Main
begin

section \<open>Values and schemas of main.py\<close>

text \<open>
  A Python \<open>str\<close> is modelled as a \<open>string\<close>, one \<open>char\<close> standing for one
  character of the Python string, so that the slice \<open>s[:n]\<close> is \<open>take n s\<close>.
  A value of type \<open>Any\<close> (a JSON-like value) is a \<open>json\<close>; a \<open>Dict[str, Any]\<close> is an
  association list in insertion order.
\<close>

datatype json =
    JNull
  | JBool bool
  | JInt int
  | JStr string
  | JList "json list"
  | JObj "(string \<times> json) list"

type_synonym dict = "(string \<times> json) list"

definition opt_str :: "string option \<Rightarrow> json" where
  "opt_str v = (case v of None \<Rightarrow> JNull | Some s \<Rightarrow> JStr s)"

text \<open>The request models. Field defaults are applied by pydantic when the request is parsed.\<close>

record ScriptToVideoRequest =
  title :: string
  script :: string
  language :: string
  platform :: string
  voice_style :: "string option"
  include_subtitles :: bool

record EditCommandRequest =
  project_id :: string
  command :: string
  language :: "string option"

record VoiceCloneRequest =
  name :: string
  sample_url :: "string option"
  language :: "string option"

record AvatarGenerateRequest =
  name :: string
  image_url :: "string option"
  style :: "string option"
  emotions :: "string list"

text \<open>The collection schemas.\<close>

record Brand =
  name :: string
  logo_url :: "string option"
  primary_color :: "string option"
  secondary_color :: "string option"
  font_family :: "string option"

record Template =
  title :: string
  category :: string
  thumbnail_url :: "string option"
  description :: "string option"
  timeline :: "dict option"

record Media =
  kind :: string
  source_url :: "string option"
  filename :: "string option"
  transcript :: "string option"
  language :: "string option"
  metadata :: "dict option"

record Project =
  title :: string
  description :: "string option"
  brand_id :: "string option"
  template_id :: "string option"
  timeline :: "dict option"
  media_ids :: "string list"
  settings :: dict

record RenderJob =
  project_id :: string
  job_type :: string
  status :: string
  progress :: int
  params :: "dict option"
  output_url :: "string option"
  error :: "string option"

text \<open>
  The values pydantic fills in for the fields a constructor call leaves out. Required
  fields (no default in the class) are always given by the callers below.
\<close>

definition Media_defaults :: Media where
  "Media_defaults =
     \<lparr>kind = [], source_url = None, filename = None, transcript = None,
      language = Some ''en'', metadata = None\<rparr>"

definition Project_defaults :: Project where
  "Project_defaults =
     \<lparr>title = [], description = None, brand_id = None, template_id = None,
      timeline = None, media_ids = [],
      settings = [(''resolution'', JStr ''1080p''), (''fps'', JInt 30),
                  (''aspect'', JStr ''16:9''),
                  (''platforms'', JList [JStr ''youtube'', JStr ''tiktok'', JStr ''instagram''])]\<rparr>"

definition RenderJob_defaults :: RenderJob where
  "RenderJob_defaults =
     \<lparr>project_id = [], job_type = [], status = ''queued'', progress = 0,
      params = None, output_url = None, error = None\<rparr>"

datatype document =
    BrandDoc Brand
  | TemplateDoc Template
  | MediaDoc Media
  | ProjectDoc Project
  | RenderJobDoc RenderJob

section \<open>Object ids\<close>

text \<open>
  A stored document is identified by the ObjectId the database gives it, a 12-byte value.
  The model names an ObjectId by a natural number; \<open>binary\<close> is its 12 bytes (big endian)
  and \<open>str_oid\<close> the 24 lower-case hexadecimal digits that \<open>str(_id)\<close> prints.
\<close>

type_synonym oid = nat

fun bytes_be :: "nat \<Rightarrow> nat \<Rightarrow> nat list" where
  "bytes_be 0 n = []"
| "bytes_be (Suc k) n = bytes_be k (n div 256) @ [n mod 256]"

definition binary :: "oid \<Rightarrow> nat list" where
  "binary n = bytes_be 12 n"

definition hex_digit :: "nat \<Rightarrow> char" where
  "hex_digit n = ''0123456789abcdef'' ! (n mod 16)"

definition hex_of_bytes :: "nat list \<Rightarrow> string" where
  "hex_of_bytes bs = concat (map (\<lambda>b. [hex_digit (b div 16), hex_digit b]) bs)"

definition str_oid :: "oid \<Rightarrow> string" where
  "str_oid n = hex_of_bytes (binary n)"

text \<open>
  \<open>ObjectId(s)\<close> of the bson library, for a string argument: the string must have 24
  characters and \<open>bytes.fromhex\<close> must accept it (pairs of hexadecimal digits, ASCII
  whitespace skipped between pairs); otherwise the constructor raises (\<open>None\<close> here).
\<close>

definition is_space :: "char \<Rightarrow> bool" where
  "is_space c = (of_char c \<in> {9::nat, 10, 11, 12, 13, 32})"

definition hexval :: "char \<Rightarrow> nat option" where
  "hexval c =
     (let n = of_char c :: nat in
      if 48 \<le> n \<and> n \<le> 57 then Some (n - 48)
      else if 97 \<le> n \<and> n \<le> 102 then Some (n - 87)
      else if 65 \<le> n \<and> n \<le> 70 then Some (n - 55)
      else None)"

fun fromhex :: "string \<Rightarrow> nat list option" where
  "fromhex [] = Some []"
| "fromhex [c] = (if is_space c then Some [] else None)"
| "fromhex (c # d # cs) =
     (if is_space c then fromhex (d # cs)
      else case (hexval c, hexval d) of
             (Some h, Some l) \<Rightarrow> map_option ((#) (16 * h + l)) (fromhex cs)
           | _ \<Rightarrow> None)"

definition ObjectId :: "string \<Rightarrow> nat list option" where
  "ObjectId s = (if length s = 24 then fromhex s else None)"

section \<open>The database\<close>

text \<open>
  The module global \<open>db\<close> is \<open>None\<close> when no database is configured; otherwise it maps a
  collection name to the documents of the collection, oldest first.
\<close>

type_synonym collection = "(oid \<times> document) list"
type_synonym database = "string \<Rightarrow> collection"
type_synonym world = "database option"

text \<open>
  The exceptions: \<open>HTTPException\<close> is what a handler raises on purpose;
  \<open>InvalidId\<close> is raised by the bson constructor \<open>ObjectId\<close>, \<open>PyMongoError\<close> by a
  query the database server does not answer, and \<open>PersistenceError\<close> by a failed
  insertion.
\<close>

datatype exn = HTTPException nat string | PersistenceError | InvalidId | PyMongoError

text \<open>
  Whether the database server answers a query is not determined by the stored documents:
  it is an input of the handlers that query.
\<close>

datatype driver = Responds | Raises

definition empty_db :: database where
  "empty_db = (\<lambda>c. [])"

definition fresh_oid :: "collection \<Rightarrow> oid" where
  "fresh_oid docs = Suc (fold max (map fst docs) 0)"

text \<open>
  Modelled from the spec: \<open>create_document\<close> of the \<open>database\<close> module, which is not
  among the sources. The spec's contract for it is \<open>create(job) -> JobId\<close>, failing with
  \<open>PersistenceError\<close> on storage failure. The model inserts the document into the named
  collection under an id no document of the collection has, and returns the id as a
  string; with no database it fails and stores nothing.
\<close>

definition create_document :: "string \<Rightarrow> document \<Rightarrow> world \<Rightarrow> (exn + string) \<times> world" where
  "create_document collection_name data db =
     (case db of
        None \<Rightarrow> (Inl PersistenceError, db)
      | Some d \<Rightarrow>
          let i = fresh_oid (d collection_name)
          in (Inr (str_oid i), Some (d(collection_name := d collection_name @ [(i, data)]))))"

text \<open>
  \<open>db[c].find_one({"_id": b})\<close>: the first document of the collection whose id is \<open>b\<close>,
  or \<open>None\<close> when there is none; the call raises when the server does not answer.
\<close>

definition find_one ::
  "driver \<Rightarrow> database \<Rightarrow> string \<Rightarrow> nat list \<Rightarrow> exn + (oid \<times> document) option" where
  "find_one drv d c b =
     (case drv of
        Raises \<Rightarrow> Inl PyMongoError
      | Responds \<Rightarrow> Inr (find (\<lambda>(i, doc). binary i = b) (d c)))"

text \<open>
  \<open>to_str_id\<close> replaces the \<open>_id\<close> of a document by the field \<open>id\<close>, the id as a string.
  Its callers pass stored documents only (never \<open>None\<close>), whose \<open>_id\<close> is an ObjectId.
\<close>

definition to_str_id :: "oid \<times> document \<Rightarrow> string \<times> document" where
  "to_str_id doc = (str_oid (fst doc), snd doc)"

section \<open>The handlers\<close>

definition create_brand :: "Brand \<Rightarrow> world \<Rightarrow> (exn + dict) \<times> world" where
  "create_brand brand db =
     (case create_document ''brand'' (BrandDoc brand) db of
        (Inl e, db') \<Rightarrow> (Inl e, db')
      | (Inr new_id, db') \<Rightarrow> (Inr [(''id'', JStr new_id)], db'))"

definition create_template :: "Template \<Rightarrow> world \<Rightarrow> (exn + dict) \<times> world" where
  "create_template tpl db =
     (case create_document ''template'' (TemplateDoc tpl) db of
        (Inl e, db') \<Rightarrow> (Inl e, db')
      | (Inr new_id, db') \<Rightarrow> (Inr [(''id'', JStr new_id)], db'))"

definition add_media :: "Media \<Rightarrow> world \<Rightarrow> (exn + dict) \<times> world" where
  "add_media media db =
     (case create_document ''media'' (MediaDoc media) db of
        (Inl e, db') \<Rightarrow> (Inl e, db')
      | (Inr new_id, db') \<Rightarrow> (Inr [(''id'', JStr new_id)], db'))"

definition create_project :: "Project \<Rightarrow> world \<Rightarrow> (exn + dict) \<times> world" where
  "create_project project db =
     (case create_document ''project'' (ProjectDoc project) db of
        (Inl e, db') \<Rightarrow> (Inl e, db')
      | (Inr new_id, db') \<Rightarrow> (Inr [(''id'', JStr new_id)], db'))"

text \<open>
  In \<open>get_project\<close> and \<open>get_render_job\<close> the \<open>try\<close> block holds both the \<open>ObjectId\<close>
  constructor and the query, and \<open>except Exception\<close> turns whatever either raises into the
  error 400.
\<close>

definition get_project :: "string \<Rightarrow> driver \<Rightarrow> world \<Rightarrow> exn + (string \<times> document)" where
  "get_project pid drv db =
     (case db of
        None \<Rightarrow> Inl (HTTPException 500 ''Database not available'')
      | Some d \<Rightarrow>
          (case (case ObjectId pid of
                   None \<Rightarrow> Inl InvalidId
                 | Some b \<Rightarrow> find_one drv d ''project'' b) of
             Inl e \<Rightarrow> Inl (HTTPException 400 ''Invalid project id'')
           | Inr None \<Rightarrow> Inl (HTTPException 404 ''Project not found'')
           | Inr (Some doc) \<Rightarrow> Inr (to_str_id doc)))"

definition script_to_video :: "ScriptToVideoRequest \<Rightarrow> world \<Rightarrow> (exn + dict) \<times> world" where
  "script_to_video req db =
     (let project = Project_defaults
            \<lparr>Project.title := ScriptToVideoRequest.title req,
             Project.description :=
               Some (''Auto-generated from script for '' @ platform req),
             Project.timeline := Some
               [(''tracks'', JList
                   [JObj [(''type'', JStr ''voiceover''),
                          (''language'', JStr (ScriptToVideoRequest.language req)),
                          (''style'', opt_str (voice_style req))],
                    JObj [(''type'', JStr ''subtitles''),
                          (''enabled'', JBool (include_subtitles req))],
                    JObj [(''type'', JStr ''visuals''), (''source'', JStr ''stock+ai'')]]),
                (''script_excerpt'', JStr (take 400 (script req)))],
             settings :=
               [(''resolution'', JStr ''1080p''), (''fps'', JInt 30),
                (''aspect'', JStr (if platform req = ''tiktok'' then ''9:16'' else ''16:9'')),
                (''platforms'', JList [JStr (platform req)])]\<rparr>
      in case create_document ''project'' (ProjectDoc project) db of
           (Inl e, db1) \<Rightarrow> (Inl e, db1)
         | (Inr pid, db1) \<Rightarrow>
             (let job = RenderJob_defaults
                    \<lparr>RenderJob.project_id := pid,
                     job_type := ''render'',
                     status := ''completed'',
                     progress := 100,
                     params := Some [(''language'', JStr (ScriptToVideoRequest.language req)),
                                     (''platform'', JStr (platform req))],
                     output_url := Some
                       ''https://storage.googleapis.com/vr-demo-assets/sample-output.mp4''\<rparr>
              in case create_document ''renderjob'' (RenderJobDoc job) db1 of
                   (Inl e, db2) \<Rightarrow> (Inl e, db2)
                 | (Inr job_id, db2) \<Rightarrow>
                     (Inr [(''project_id'', JStr pid),
                           (''job_id'', JStr job_id),
                           (''status'', JStr ''completed''),
                           (''output_url'', opt_str (output_url job))], db2)))"

definition simulated_diff :: json where
  "simulated_diff =
     JObj [(''actions'', JList
       [JObj [(''op'', JStr ''cut''), (''from'', JStr ''00:10''), (''to'', JStr ''00:14'')],
        JObj [(''op'', JStr ''add_broll''), (''query'', JStr ''city skyline'')],
        JObj [(''op'', JStr ''color''), (''mode'', JStr ''auto-correct'')]])]"

definition ai_edit :: "EditCommandRequest \<Rightarrow> world \<Rightarrow> (exn + dict) \<times> world" where
  "ai_edit req db =
     (let job = RenderJob_defaults
            \<lparr>RenderJob.project_id := EditCommandRequest.project_id req,
             job_type := ''edit'',
             status := ''completed'',
             progress := 100,
             params := Some [(''command'', JStr (command req)),
                             (''language'', opt_str (EditCommandRequest.language req))],
             output_url := Some
               ''https://storage.googleapis.com/vr-demo-assets/edited-preview.mp4''\<rparr>
      in case create_document ''renderjob'' (RenderJobDoc job) db of
           (Inl e, db') \<Rightarrow> (Inl e, db')
         | (Inr job_id, db') \<Rightarrow>
             (Inr [(''job_id'', JStr job_id),
                   (''status'', JStr ''completed''),
                   (''diff'', simulated_diff),
                   (''preview_url'', opt_str (output_url job))], db'))"

definition voice_clone :: "VoiceCloneRequest \<Rightarrow> world \<Rightarrow> (exn + dict) \<times> world" where
  "voice_clone req db =
     (let media = Media_defaults
            \<lparr>kind := ''voice'',
             Media.source_url := sample_url req,
             Media.language := VoiceCloneRequest.language req,
             metadata := Some [(''name'', JStr (VoiceCloneRequest.name req)),
                               (''clone'', JBool True)]\<rparr>
      in case create_document ''media'' (MediaDoc media) db of
           (Inl e, db') \<Rightarrow> (Inl e, db')
         | (Inr media_id, db') \<Rightarrow>
             (Inr [(''voice_id'', JStr media_id), (''status'', JStr ''ready'')], db'))"

definition avatar_generate :: "AvatarGenerateRequest \<Rightarrow> world \<Rightarrow> (exn + dict) \<times> world" where
  "avatar_generate req db =
     (let media = Media_defaults
            \<lparr>kind := ''avatar'',
             Media.source_url := image_url req,
             metadata := Some [(''name'', JStr (AvatarGenerateRequest.name req)),
                               (''style'', opt_str (style req)),
                               (''emotions'', JList (map JStr (emotions req)))]\<rparr>
      in case create_document ''media'' (MediaDoc media) db of
           (Inl e, db') \<Rightarrow> (Inl e, db')
         | (Inr media_id, db') \<Rightarrow>
             (Inr [(''avatar_id'', JStr media_id),
                   (''preview_url'', JStr
                      ''https://storage.googleapis.com/vr-demo-assets/avatar-preview.gif'')],
              db'))"

definition get_render_job :: "string \<Rightarrow> driver \<Rightarrow> world \<Rightarrow> exn + (string \<times> document)" where
  "get_render_job job_id drv db =
     (case db of
        None \<Rightarrow> Inl (HTTPException 500 ''Database not available'')
      | Some d \<Rightarrow>
          (case (case ObjectId job_id of
                   None \<Rightarrow> Inl InvalidId
                 | Some b \<Rightarrow> find_one drv d ''renderjob'' b) of
             Inl e \<Rightarrow> Inl (HTTPException 400 ''Invalid job id'')
           | Inr None \<Rightarrow> Inl (HTTPException 404 ''Job not found'')
           | Inr (Some doc) \<Rightarrow> Inr (to_str_id doc)))"

section \<open>Runs of the service\<close>

text \<open>
  The requests that write to the database, one per POST route. The GET routes
  (the list routes, \<open>get_project\<close>, \<open>get_render_job\<close>, the analytics and health routes)
  only read, so a run of the service changes the database by these requests alone.
\<close>

datatype request =
    CreateBrand Brand
  | CreateTemplate Template
  | AddMedia Media
  | CreateProject Project
  | ScriptToVideo ScriptToVideoRequest
  | AiEdit EditCommandRequest
  | VoiceClone VoiceCloneRequest
  | AvatarGenerate AvatarGenerateRequest

fun handle :: "request \<Rightarrow> world \<Rightarrow> (exn + dict) \<times> world" where
  "handle (CreateBrand b) db = create_brand b db"
| "handle (CreateTemplate t) db = create_template t db"
| "handle (AddMedia m) db = add_media m db"
| "handle (CreateProject p) db = create_project p db"
| "handle (ScriptToVideo r) db = script_to_video r db"
| "handle (AiEdit r) db = ai_edit r db"
| "handle (VoiceClone r) db = voice_clone r db"
| "handle (AvatarGenerate r) db = avatar_generate r db"

fun run :: "request list \<Rightarrow> world \<Rightarrow> world" where
  "run [] db = db"
| "run (r # rs) db = run rs (snd (handle r db))"

text \<open>The render jobs and the projects a database holds, with their ids.\<close>

fun the_job :: "oid \<times> document \<Rightarrow> (oid \<times> RenderJob) option" where
  "the_job (i, RenderJobDoc j) = Some (i, j)"
| "the_job (i, _) = None"

fun the_project :: "oid \<times> document \<Rightarrow> (oid \<times> Project) option" where
  "the_project (i, ProjectDoc p) = Some (i, p)"
| "the_project (i, _) = None"

definition jobs :: "world \<Rightarrow> (oid \<times> RenderJob) list" where
  "jobs db = (case db of None \<Rightarrow> [] | Some d \<Rightarrow> List.map_filter the_job (d ''renderjob''))"

definition projects :: "world \<Rightarrow> (oid \<times> Project) list" where
  "projects db = (case db of None \<Rightarrow> [] | Some d \<Rightarrow> List.map_filter the_project (d ''project''))"

definition lookup_job :: "world \<Rightarrow> oid \<Rightarrow> RenderJob option" where
  "lookup_job db i = map_of (jobs db) i"

text \<open>\<open>settings["platforms"]\<close> of a project is a non-empty list.\<close>

definition platforms_nonempty :: "Project \<Rightarrow> bool" where
  "platforms_nonempty p =
     (case map_of (settings p) ''platforms'' of
        Some (JList (x # xs)) \<Rightarrow> True
      | _ \<Rightarrow> False)"

section \<open>Example inputs\<close>

definition script_request_example :: ScriptToVideoRequest where
  "script_request_example =
     \<lparr>ScriptToVideoRequest.title = ''Launch'', script = ''Hello world'',
      ScriptToVideoRequest.language = ''en'', platform = ''tiktok'',
      voice_style = Some ''neutral'', include_subtitles = True\<rparr>"

definition long_script_request :: ScriptToVideoRequest where
  "long_script_request = script_request_example\<lparr>script := replicate 401 (CHR ''a'')\<rparr>"

definition edit_request_example :: EditCommandRequest where
  "edit_request_example =
     \<lparr>EditCommandRequest.project_id = ''000000000000000000000001'',
      command = ''cut from 00:10 to 00:14'',
      EditCommandRequest.language = Some ''en''\<rparr>"

definition edit_request_other :: EditCommandRequest where
  "edit_request_other = edit_request_example\<lparr>command := ''add subtitles''\<rparr>"

definition project_without_platforms :: Project where
  "project_without_platforms =
     Project_defaults\<lparr>Project.title := ''Empty'', settings := [(''platforms'', JList [])]\<rparr>"


definition edit_job_example :: RenderJob where
  "edit_job_example =
     \<lparr>RenderJob.project_id = ''000000000000000000000001'',
      job_type = ''edit'', status = ''completed'', progress = 100,
      params = Some [(''command'', JStr ''cut from 00:10 to 00:14''),
                     (''language'', JStr ''en'')],
      output_url = Some ''https://storage.googleapis.com/vr-demo-assets/edited-preview.mp4'',
      error = None\<rparr>"

definition db_after_edit :: world where
  "db_after_edit = snd (ai_edit edit_request_example (Some empty_db))"


definition db_with_project :: world where
  "db_with_project = snd (create_project Project_defaults (Some empty_db))"

section \<open>Facts about the database and the handlers\<close>

lemma create_document_None: "create_document c data None = (Inl PersistenceError, None)"
  by (simp add: create_document_def)

lemma create_document_Some:
  "create_document c data (Some d) =
     (Inr (str_oid (fresh_oid (d c))), Some (d(c := d c @ [(fresh_oid (d c), data)])))"
  by (simp add: create_document_def Let_def)

lemmas handler_defs =
  create_brand_def create_template_def add_media_def create_project_def
  script_to_video_def ai_edit_def voice_clone_def avatar_generate_def

lemma jobs_handle:
  "\<exists>ys. jobs (snd (handle r db)) = jobs db @ ys \<and>
     (\<forall>(i, j) \<in> set ys. status j = ''completed'' \<and> progress j = 100 \<and>
        output_url j \<noteq> None \<and> error j = None)"
proof (cases db)
  case None
  then show ?thesis
    by (cases r) (simp_all add: handler_defs create_document_None Let_def)
next
  case (Some d)
  then show ?thesis
    by (cases r) (simp_all add: handler_defs create_document_Some Let_def
        jobs_def List.map_filter_def RenderJob_defaults_def)
qed

lemma jobs_run:
  "\<exists>ys. jobs (run rs db) = jobs db @ ys \<and>
     (\<forall>(i, j) \<in> set ys. status j = ''completed'' \<and> progress j = 100 \<and>
        output_url j \<noteq> None \<and> error j = None)"
proof (induction rs arbitrary: db)
  case Nil
  then show ?case by simp
next
  case (Cons r rs)
  obtain ys where ys: "jobs (snd (handle r db)) = jobs db @ ys"
    "\<forall>(i, j) \<in> set ys. status j = ''completed'' \<and> progress j = 100 \<and>
        output_url j \<noteq> None \<and> error j = None"
    using jobs_handle by blast
  obtain zs where zs: "jobs (run rs (snd (handle r db))) = jobs (snd (handle r db)) @ zs"
    "\<forall>(i, j) \<in> set zs. status j = ''completed'' \<and> progress j = 100 \<and>
        output_url j \<noteq> None \<and> error j = None"
    using Cons.IH by blast
  have "jobs (run (r # rs) db) = jobs db @ (ys @ zs)"
    using ys(1) zs(1) by simp
  moreover have "\<forall>(i, j) \<in> set (ys @ zs). status j = ''completed'' \<and> progress j = 100 \<and>
        output_url j \<noteq> None \<and> error j = None"
    using ys(2) zs(2) by auto
  ultimately show ?case by blast
qed

lemma jobs_empty: "jobs (Some empty_db) = []"
  by (simp add: jobs_def empty_db_def List.map_filter_def)

lemma lookup_job_run: "lookup_job db k = Some j \<Longrightarrow> lookup_job (run rs db) k = Some j"
proof -
  assume a: "lookup_job db k = Some j"
  obtain ys where "jobs (run rs db) = jobs db @ ys" using jobs_run by blast
  then show ?thesis using a by (simp add: lookup_job_def map_add_Some_iff)
qed

lemma script_to_video_Some:
  "script_to_video req (Some d) =
     (Inr [(''project_id'', JStr (str_oid (fresh_oid (d ''project'')))),
           (''job_id'', JStr (str_oid (fresh_oid (d ''renderjob'')))),
           (''status'', JStr ''completed''),
           (''output_url'', JStr ''https://storage.googleapis.com/vr-demo-assets/sample-output.mp4'')],
      Some (d(''project'' := d ''project'' @
               [(fresh_oid (d ''project''), ProjectDoc
                  \<lparr>Project.title = ScriptToVideoRequest.title req,
                   description = Some (''Auto-generated from script for '' @ platform req),
                   brand_id = None, template_id = None,
                   timeline = Some
                     [(''tracks'', JList
                         [JObj [(''type'', JStr ''voiceover''),
                                (''language'', JStr (ScriptToVideoRequest.language req)),
                                (''style'', opt_str (voice_style req))],
                          JObj [(''type'', JStr ''subtitles''),
                                (''enabled'', JBool (include_subtitles req))],
                          JObj [(''type'', JStr ''visuals''), (''source'', JStr ''stock+ai'')]]),
                      (''script_excerpt'', JStr (take 400 (script req)))],
                   media_ids = [],
                   settings =
                     [(''resolution'', JStr ''1080p''), (''fps'', JInt 30),
                      (''aspect'', JStr (if platform req = ''tiktok'' then ''9:16'' else ''16:9'')),
                      (''platforms'', JList [JStr (platform req)])]\<rparr>)],
            ''renderjob'' := d ''renderjob'' @
               [(fresh_oid (d ''renderjob''), RenderJobDoc
                  \<lparr>RenderJob.project_id = str_oid (fresh_oid (d ''project'')),
                   job_type = ''render'', status = ''completed'', progress = 100,
                   params = Some [(''language'', JStr (ScriptToVideoRequest.language req)),
                                  (''platform'', JStr (platform req))],
                   output_url = Some ''https://storage.googleapis.com/vr-demo-assets/sample-output.mp4'',
                   error = None\<rparr>)])))"
  by (simp add: script_to_video_def create_document_Some Let_def RenderJob_defaults_def
      Project_defaults_def opt_str_def)

lemma ai_edit_Some:
  "ai_edit req (Some d) =
     (Inr [(''job_id'', JStr (str_oid (fresh_oid (d ''renderjob'')))),
           (''status'', JStr ''completed''),
           (''diff'', simulated_diff),
           (''preview_url'', JStr ''https://storage.googleapis.com/vr-demo-assets/edited-preview.mp4'')],
      Some (d(''renderjob'' := d ''renderjob'' @
        [(fresh_oid (d ''renderjob''), RenderJobDoc
           \<lparr>RenderJob.project_id = EditCommandRequest.project_id req,
            job_type = ''edit'', status = ''completed'', progress = 100,
            params = Some [(''command'', JStr (command req)),
                           (''language'', opt_str (EditCommandRequest.language req))],
            output_url = Some ''https://storage.googleapis.com/vr-demo-assets/edited-preview.mp4'',
            error = None\<rparr>)])))"
  by (simp add: ai_edit_def create_document_Some Let_def RenderJob_defaults_def opt_str_def)

lemma script_to_video_None: "script_to_video req None = (Inl PersistenceError, None)"
  by (simp add: script_to_video_def create_document_None Let_def)

lemma ai_edit_None: "ai_edit req None = (Inl PersistenceError, None)"
  by (simp add: ai_edit_def create_document_None Let_def)

lemma bytes_be_numeral:
  "bytes_be (numeral k) n = bytes_be (pred_numeral k) (n div 256) @ [n mod 256]"
  by (metis bytes_be.simps(2) numeral_eq_Suc)

lemma binary_1: "binary (Suc 0) = [0, 0, 0, 0, 0, 0, 0, 0, 0, 0, 0, 1]"
  by (simp add: binary_def bytes_be_numeral)

lemma str_oid_1: "str_oid (Suc 0) = ''000000000000000000000001''"
  by (simp add: str_oid_def binary_1 hex_of_bytes_def hex_digit_def)

lemma ObjectId_1:
  "ObjectId ''000000000000000000000001'' = Some [0, 0, 0, 0, 0, 0, 0, 0, 0, 0, 0, 1]"
  by (simp add: ObjectId_def is_space_def hexval_def)

lemma find_SomeD: "find P xs = Some x \<Longrightarrow> x \<in> set xs \<and> P x"
  by (induction xs) (auto split: if_splits)

lemma lookup_after_edit: "lookup_job db_after_edit 1 = Some edit_job_example"
  by (simp add: db_after_edit_def ai_edit_Some lookup_job_def jobs_def List.map_filter_def
      empty_db_def fresh_oid_def edit_request_example_def edit_job_example_def opt_str_def)

lemma jobs_after_edit: "jobs db_after_edit = [(1, edit_job_example)]"
  by (simp add: db_after_edit_def ai_edit_Some jobs_def List.map_filter_def
      empty_db_def fresh_oid_def edit_request_example_def edit_job_example_def opt_str_def)

lemma find_append_Some: "find P xs = Some x \<Longrightarrow> find P (xs @ ys) = Some x"
  by (induction xs) (auto split: if_splits)

lemma projects_handle_job:
  "projects (snd (ai_edit ereq db)) = projects db"
  by (cases db) (simp_all add: ai_edit_None ai_edit_Some projects_def)

lemma get_project_Some:
  "get_project pid drv (Some d) =
     (case ObjectId pid of
        None \<Rightarrow> Inl (HTTPException 400 ''Invalid project id'')
      | Some b \<Rightarrow>
          (case drv of
             Raises \<Rightarrow> Inl (HTTPException 400 ''Invalid project id'')
           | Responds \<Rightarrow>
               (case find (\<lambda>(i, doc). binary i = b) (d ''project'') of
                  None \<Rightarrow> Inl (HTTPException 404 ''Project not found'')
                | Some doc \<Rightarrow> Inr (to_str_id doc))))"
  by (simp add: get_project_def find_one_def split: option.splits driver.splits)

lemma get_project_extend:
  assumes "get_project pid drv (Some d) = Inr doc"
  shows "get_project pid drv (Some (d(''project'' := d ''project'' @ ys))) = Inr doc"
proof -
  obtain b x where bx: "ObjectId pid = Some b" "drv = Responds"
      "find (\<lambda>(i, doc). binary i = b) (d ''project'') = Some x" "doc = to_str_id x"
    using assms by (auto simp: get_project_Some split: option.splits driver.splits)
  have "find (\<lambda>(i, doc). binary i = b) (d ''project'' @ ys) = Some x"
    using bx(3) by (rule find_append_Some)
  then show ?thesis using bx by (simp add: get_project_Some)
qed

lemma get_project_other:
  "c \<noteq> ''project'' \<Longrightarrow>
     get_project pid drv (Some (d(c := v))) = get_project pid drv (Some d)"
  by (simp add: get_project_Some split: option.splits driver.splits)

section \<open>The claims\<close>

text \<open>
  Claim C1, as stated, fails: the record that \<open>script_to_video\<close> and \<open>ai_edit\<close> store
  at submission has status \<open>completed\<close>, not \<open>queued\<close>. Both handlers pass
  \<open>status="completed"\<close> to the \<open>RenderJob\<close> constructor (the job is simulated), which
  overrides the default \<open>queued\<close> of the schema.
\<close>

theorem submission_status_counterexample:
  "map (status \<circ> snd) (jobs (snd (script_to_video script_request_example (Some empty_db))))
     = [''completed''] \<and>
   map (status \<circ> snd) (jobs (snd (ai_edit edit_request_example (Some empty_db))))
     = [''completed''] \<and>
   ''queued'' \<notin> set (map (status \<circ> snd)
      (jobs (snd (script_to_video script_request_example (Some empty_db)))))"
  by (simp add: script_to_video_Some ai_edit_Some jobs_def List.map_filter_def empty_db_def)

text \<open>
  Claim C1, amended: with a database, every script-to-video and edit submission succeeds
  and appends one RenderJob record whose status is \<open>completed\<close> and whose progress is 100
  at the moment it is stored; the response reports \<open>completed\<close> too. No later request
  changes a stored job, so a job never passes through \<open>queued\<close> or \<open>running\<close>.
\<close>

theorem submission_stores_completed:
  "(\<exists>resp db' i j. script_to_video req (Some d) = (Inr resp, db') \<and>
      jobs db' = jobs (Some d) @ [(i, j)] \<and>
      status j = ''completed'' \<and> progress j = 100 \<and>
      map_of resp ''status'' = Some (JStr ''completed'')) \<and>
   (\<exists>resp db' i j. ai_edit ereq (Some d) = (Inr resp, db') \<and>
      jobs db' = jobs (Some d) @ [(i, j)] \<and>
      status j = ''completed'' \<and> progress j = 100 \<and>
      map_of resp ''status'' = Some (JStr ''completed'')) \<and>
   (lookup_job db k = Some j0 \<longrightarrow> lookup_job (run rs db) k = Some j0)"
  by (simp add: script_to_video_Some ai_edit_Some jobs_def List.map_filter_def lookup_job_run)

text \<open>
  The job stored by one edit request is still the same record after two further
  submissions.
\<close>

theorem submission_stores_completed_witness:
  "lookup_job db_after_edit 1 = Some edit_job_example \<and>
   lookup_job (run [AiEdit edit_request_other, ScriptToVideo script_request_example] db_after_edit) 1
     = Some edit_job_example"
  using submission_stores_completed
    [of _ _ _ db_after_edit 1 edit_job_example
        "[AiEdit edit_request_other, ScriptToVideo script_request_example]"]
    lookup_after_edit
  by blast



text \<open>
  Claim C3, as stated, fails: for a job id that is not a well-formed ObjectId the lookup
  answers with the HTTP error 400 \<open>Invalid job id\<close>, and without a database with the
  error 500; neither is the stored job or a not-found result. The error 400 is also the
  answer for the id of a stored job when the query raises.
\<close>

theorem lookup_invalid_id_counterexample:
  "get_render_job ''not-a-job-id'' Responds (Some empty_db)
     = Inl (HTTPException 400 ''Invalid job id'') \<and>
   get_render_job ''000000000000000000000001'' Responds None
     = Inl (HTTPException 500 ''Database not available'') \<and>
   get_render_job ''000000000000000000000001'' Responds db_after_edit
     = Inr (''000000000000000000000001'', RenderJobDoc edit_job_example) \<and>
   get_render_job ''000000000000000000000001'' Raises db_after_edit
     = Inl (HTTPException 400 ''Invalid job id'')"
proof -
  have "get_render_job ''not-a-job-id'' Responds (Some empty_db)
      = Inl (HTTPException 400 ''Invalid job id'')"
    by (simp add: get_render_job_def ObjectId_def)
  moreover have "get_render_job ''000000000000000000000001'' Responds None
      = Inl (HTTPException 500 ''Database not available'')"
    by (simp add: get_render_job_def)
  moreover have "get_render_job ''000000000000000000000001'' Responds db_after_edit
      = Inr (''000000000000000000000001'', RenderJobDoc edit_job_example)"
    by (simp add: get_render_job_def ObjectId_1 find_one_def
        db_after_edit_def ai_edit_Some empty_db_def fresh_oid_def binary_1 to_str_id_def
        str_oid_1 edit_request_example_def edit_job_example_def opt_str_def)
  moreover have "get_render_job ''000000000000000000000001'' Raises db_after_edit
      = Inl (HTTPException 400 ''Invalid job id'')"
    by (simp add: get_render_job_def ObjectId_1 find_one_def db_after_edit_def ai_edit_Some)
  ultimately show ?thesis by simp
qed

text \<open>
  Claim C3, amended: the job lookup has exactly four outcomes, each a value of the
  interface: error 500 when there is no database; error 400 when the id is not a
  well-formed ObjectId or the query raises; error 404 when the query answers and no stored
  job has the id; and otherwise, the query answering, a stored job that has the id,
  returned with the id as a string.
\<close>

theorem lookup_outcomes:
  "(db = None \<and>
      get_render_job job_id drv db = Inl (HTTPException 500 ''Database not available'')) \<or>
   (\<exists>d. db = Some d \<and> (ObjectId job_id = None \<or> drv = Raises) \<and>
      get_render_job job_id drv db = Inl (HTTPException 400 ''Invalid job id'')) \<or>
   (\<exists>d b. db = Some d \<and> ObjectId job_id = Some b \<and> drv = Responds \<and>
      list_all (\<lambda>doc. binary (fst doc) \<noteq> b) (d ''renderjob'') \<and>
      get_render_job job_id drv db = Inl (HTTPException 404 ''Job not found'')) \<or>
   (\<exists>d b doc. db = Some d \<and> ObjectId job_id = Some b \<and> drv = Responds \<and>
      doc \<in> set (d ''renderjob'') \<and> binary (fst doc) = b \<and>
      get_render_job job_id drv db = Inr (str_oid (fst doc), snd doc))"
proof (cases db)
  case None
  then show ?thesis by (simp add: get_render_job_def)
next
  case (Some d)
  show ?thesis
  proof (cases "ObjectId job_id")
    case None
    with Some show ?thesis by (simp add: get_render_job_def)
  next
    case b: (Some b)
    show ?thesis
    proof (cases drv)
      case Raises
      with Some b show ?thesis by (simp add: get_render_job_def find_one_def)
    next
      case Responds
      show ?thesis
      proof (cases "find (\<lambda>(i, doc). binary i = b) (d ''renderjob'')")
        case None
        then have "list_all (\<lambda>doc. binary (fst doc) \<noteq> b) (d ''renderjob'')"
          by (auto simp: find_None_iff list_all_iff)
        with Some b Responds None show ?thesis
          by (simp add: get_render_job_def find_one_def)
      next
        case found: (Some doc)
        then have "doc \<in> set (d ''renderjob'') \<and> binary (fst doc) = b"
          using find_SomeD [of "\<lambda>(i, doc). binary i = b" "d ''renderjob''" doc]
          by auto
        then have mem: "doc \<in> set (d ''renderjob'')" and key: "binary (fst doc) = b"
          by simp_all
        have "get_render_job job_id drv db = Inr (str_oid (fst doc), snd doc)"
          using Some b Responds found
          by (simp add: get_render_job_def find_one_def to_str_id_def)
        with Some b Responds mem key show ?thesis by blast
      qed
    qed
  qed
qed

text \<open>
  Claim C4: the progress of every job that a run of the service stores lies between 0 and
  100, and a stored job's progress never decreases, whatever requests follow. (Every job
  is stored with progress 100 and no request updates a stored job.)
\<close>

theorem progress_bounded_monotone:
  "(\<forall>(i, j) \<in> set (jobs (run rs (Some empty_db))). 0 \<le> progress j \<and> progress j \<le> 100) \<and>
   (lookup_job db k = Some j0 \<longrightarrow>
      (\<exists>j1. lookup_job (run rs' db) k = Some j1 \<and> progress j0 \<le> progress j1))"
proof -
  obtain ys where ys: "jobs (run rs (Some empty_db)) = jobs (Some empty_db) @ ys"
    "\<forall>(i, j) \<in> set ys. status j = ''completed'' \<and> progress j = 100 \<and>
        output_url j \<noteq> None \<and> error j = None"
    using jobs_run by blast
  have "\<forall>(i, j) \<in> set (jobs (run rs (Some empty_db))). 0 \<le> progress j \<and> progress j \<le> 100"
    using ys by (auto simp: jobs_empty)
  then show ?thesis using lookup_job_run [of db k j0 rs'] by auto
qed

text \<open>
  The job of one edit request has progress within the bounds, and two further submissions
  leave a job with at least that progress under its id.
\<close>

theorem progress_bounded_monotone_witness:
  "(1, edit_job_example) \<in> set (jobs (run [AiEdit edit_request_example] (Some empty_db))) \<and>
   0 \<le> progress edit_job_example \<and> progress edit_job_example \<le> 100 \<and>
   lookup_job db_after_edit 1 = Some edit_job_example \<and>
   (\<exists>j1. lookup_job (run [ScriptToVideo script_request_example, AiEdit edit_request_other]
              db_after_edit) 1 = Some j1 \<and>
         progress edit_job_example \<le> progress j1)"
proof -
  have mem: "(1, edit_job_example) \<in> set (jobs (run [AiEdit edit_request_example] (Some empty_db)))"
    using jobs_after_edit by (simp add: db_after_edit_def)
  show ?thesis
    using progress_bounded_monotone
      [of "[AiEdit edit_request_example]" db_after_edit 1 edit_job_example
          "[ScriptToVideo script_request_example, AiEdit edit_request_other]"]
      mem lookup_after_edit
    by fastforce
qed

text \<open>
  Claim C5: in every RenderJob record that a run of the service stores, the output
  reference is set if and only if the status is \<open>completed\<close>, and the error field is set
  only when the status is \<open>failed\<close>. In fact the error field (an optional string in the
  schema) is never set: both handlers that create jobs leave it at its default.
\<close>

theorem output_iff_completed:
  "\<forall>(i, j) \<in> set (jobs (run rs (Some empty_db))).
     (output_url j \<noteq> None \<longleftrightarrow> status j = ''completed'') \<and>
     (error j \<noteq> None \<longrightarrow> status j = ''failed'') \<and>
     error j = None"
proof -
  obtain ys where ys: "jobs (run rs (Some empty_db)) = jobs (Some empty_db) @ ys"
    "\<forall>(i, j) \<in> set ys. status j = ''completed'' \<and> progress j = 100 \<and>
        output_url j \<noteq> None \<and> error j = None"
    using jobs_run by blast
  then show ?thesis by (auto simp: jobs_empty)
qed

text \<open>
  The record of one edit request has its output reference set, status \<open>completed\<close> and
  no error.
\<close>

theorem output_iff_completed_witness:
  "(1, edit_job_example) \<in> set (jobs (run [AiEdit edit_request_example] (Some empty_db))) \<and>
   output_url edit_job_example \<noteq> None \<and> status edit_job_example = ''completed'' \<and>
   error edit_job_example = None"
proof -
  have mem: "(1, edit_job_example) \<in> set (jobs (run [AiEdit edit_request_example] (Some empty_db)))"
    using jobs_after_edit by (simp add: db_after_edit_def)
  show ?thesis
    using bspec [OF output_iff_completed [of "[AiEdit edit_request_example]"] mem] mem
    by (simp add: edit_job_example_def)
qed

text \<open>
  Claim C6, as stated, fails: \<open>create_project\<close> stores the settings the client sends
  without checking them, so a project whose \<open>platforms\<close> list is empty is accepted and
  stored as it is.
\<close>

theorem empty_platforms_counterexample:
  "fst (create_project project_without_platforms (Some empty_db))
     = Inr [(''id'', JStr ''000000000000000000000001'')] \<and>
   projects (snd (create_project project_without_platforms (Some empty_db)))
     = [(1, project_without_platforms)] \<and>
   map_of (settings project_without_platforms) ''platforms'' = Some (JList []) \<and>
   \<not> platforms_nonempty project_without_platforms"
  by (simp add: create_project_def create_document_Some projects_def List.map_filter_def
      empty_db_def fresh_oid_def str_oid_1 project_without_platforms_def platforms_nonempty_def)

text \<open>
  Claim C6, amended: script-to-video stores a project whose \<open>platforms\<close> is the
  one-element list of the requested platform, hence non-empty; project creation stores the
  submitted project unchanged, settings included; and the default settings, used when the
  client sends none, have a non-empty \<open>platforms\<close> list.
\<close>

theorem platforms_after_project_requests:
  "(\<exists>i p. projects (snd (script_to_video req (Some d))) = projects (Some d) @ [(i, p)] \<and>
      map_of (settings p) ''platforms'' = Some (JList [JStr (platform req)]) \<and>
      platforms_nonempty p) \<and>
   (\<exists>i. projects (snd (create_project p0 (Some d))) = projects (Some d) @ [(i, p0)]) \<and>
   platforms_nonempty Project_defaults"
  by (simp add: script_to_video_Some create_project_def create_document_Some projects_def
      List.map_filter_def platforms_nonempty_def Project_defaults_def)

text \<open>
  Claim C7: a project that can be read before a script-to-video or an edit request is read
  unchanged after it. The edit request leaves the whole project collection as it is;
  script-to-video only appends the project it creates.
\<close>

theorem jobs_leave_projects_unchanged:
  "(get_project pid drv db = Inr doc \<longrightarrow>
      get_project pid drv (snd (script_to_video req db)) = Inr doc \<and>
      get_project pid drv (snd (ai_edit ereq db)) = Inr doc) \<and>
   projects (snd (ai_edit ereq db)) = projects db \<and>
   take (length (projects db)) (projects (snd (script_to_video req db))) = projects db"
proof (cases db)
  case None
  then show ?thesis
    by (simp add: script_to_video_None ai_edit_None)
next
  case (Some d)
  have "get_project pid drv (Some d) = Inr doc \<Longrightarrow>
          get_project pid drv (snd (script_to_video req (Some d))) = Inr doc"
    by (simp add: script_to_video_Some get_project_other get_project_extend)
  moreover have "get_project pid drv (snd (ai_edit ereq (Some d))) = get_project pid drv (Some d)"
    by (simp add: ai_edit_Some get_project_other)
  moreover have "take (length (projects (Some d))) (projects (snd (script_to_video req (Some d))))
      = projects (Some d)"
    by (simp add: script_to_video_Some projects_def List.map_filter_def)
  ultimately show ?thesis using Some by (simp add: projects_handle_job)
qed

text \<open>
  A stored project is read back unchanged after a script-to-video and after an edit
  request.
\<close>

theorem jobs_leave_projects_unchanged_witness:
  "get_project ''000000000000000000000001'' Responds db_with_project
     = Inr (''000000000000000000000001'', ProjectDoc Project_defaults) \<and>
   get_project ''000000000000000000000001'' Responds
       (snd (script_to_video script_request_example db_with_project))
     = Inr (''000000000000000000000001'', ProjectDoc Project_defaults) \<and>
   get_project ''000000000000000000000001'' Responds
       (snd (ai_edit edit_request_example db_with_project))
     = Inr (''000000000000000000000001'', ProjectDoc Project_defaults)"
proof -
  have "get_project ''000000000000000000000001'' Responds db_with_project
     = Inr (''000000000000000000000001'', ProjectDoc Project_defaults)"
    by (simp add: db_with_project_def create_project_def create_document_Some get_project_def
        ObjectId_1 find_one_def empty_db_def fresh_oid_def binary_1 to_str_id_def str_oid_1)
  then show ?thesis
    using jobs_leave_projects_unchanged
      [of "''000000000000000000000001''" Responds db_with_project
          "(''000000000000000000000001'', ProjectDoc Project_defaults)"
          script_request_example edit_request_example]
    by blast
qed

text \<open>
  Claim C9: whenever two edit requests succeed, in whatever databases, both responses carry
  the same \<open>diff\<close>, the fixed \<open>simulated_diff\<close>: it does not depend on the command.
\<close>

theorem edit_diff_fixed:
  "fst (ai_edit r1 db1) = Inr resp1 \<Longrightarrow> fst (ai_edit r2 db2) = Inr resp2 \<Longrightarrow>
     map_of resp1 ''diff'' = Some simulated_diff \<and> map_of resp1 ''diff'' = map_of resp2 ''diff''"
  by (cases db1; cases db2) (auto simp: ai_edit_None ai_edit_Some)

text \<open>
  Two edit requests with different commands return the same diff.
\<close>

theorem edit_diff_fixed_witness:
  "command edit_request_example \<noteq> command edit_request_other \<and>
   (\<exists>resp1 resp2.
      fst (ai_edit edit_request_example (Some empty_db)) = Inr resp1 \<and>
      fst (ai_edit edit_request_other db_after_edit) = Inr resp2 \<and>
      map_of resp1 ''diff'' = Some simulated_diff \<and>
      map_of resp1 ''diff'' = map_of resp2 ''diff'')"
proof -
  obtain resp1 where r1: "fst (ai_edit edit_request_example (Some empty_db)) = Inr resp1"
    by (simp add: ai_edit_Some)
  obtain resp2 where r2: "fst (ai_edit edit_request_other db_after_edit) = Inr resp2"
    by (simp add: db_after_edit_def ai_edit_Some)
  have "command edit_request_example \<noteq> command edit_request_other"
    by (simp add: edit_request_example_def edit_request_other_def)
  then show ?thesis
    using edit_diff_fixed [OF r1 r2] r1 r2 by blast
qed

text \<open>
  Claim C10: the project a script-to-video request creates has a timeline whose
  \<open>script_excerpt\<close> is the first 400 characters of the script: the whole script when it
  has at most 400 characters, and a proper prefix of length 400 when it is longer.
\<close>

theorem script_excerpt_truncated:
  "\<exists>i p tl.
     projects (snd (script_to_video req (Some d))) = projects (Some d) @ [(i, p)] \<and>
     Project.timeline p = Some tl \<and>
     map_of tl ''script_excerpt'' = Some (JStr (take 400 (script req))) \<and>
     (length (script req) \<le> 400 \<longrightarrow> map_of tl ''script_excerpt'' = Some (JStr (script req))) \<and>
     (400 < length (script req) \<longrightarrow>
        length (take 400 (script req)) = 400 \<and> take 400 (script req) \<noteq> script req)"
proof -
  have "400 < length (script req) \<Longrightarrow> take 400 (script req) \<noteq> script req"
    by (metis length_take min.strict_order_iff min.commute nat_neq_iff)
  then show ?thesis
    by (auto simp: script_to_video_Some projects_def List.map_filter_def)
qed

text \<open>
  An 11-character script is stored whole; a script of 401 characters is stored as its first
  400 characters, which differ from the script.
\<close>

theorem script_excerpt_truncated_witness:
  "length (script script_request_example) \<le> 400 \<and>
   400 < length (script long_script_request) \<and>
   (\<exists>i p tl.
     projects (snd (script_to_video script_request_example (Some empty_db))) = [(i, p)] \<and>
     Project.timeline p = Some tl \<and>
     map_of tl ''script_excerpt'' = Some (JStr ''Hello world'')) \<and>
   (\<exists>i p tl.
     projects (snd (script_to_video long_script_request (Some empty_db))) = [(i, p)] \<and>
     Project.timeline p = Some tl \<and>
     map_of tl ''script_excerpt'' = Some (JStr (replicate 400 (CHR ''a''))) \<and>
     replicate 400 (CHR ''a'') \<noteq> script long_script_request)"
proof -
  have short: "script script_request_example = ''Hello world''"
    by (simp add: script_request_example_def)
  have long: "script long_script_request = replicate 401 (CHR ''a'')"
    by (simp add: long_script_request_def)
  have tk: "take 400 (replicate 401 (CHR ''a'')) = replicate 400 (CHR ''a'')"
    by simp
  have e: "projects (Some empty_db) = []"
    by (simp add: projects_def empty_db_def List.map_filter_def)
  show ?thesis
    using script_excerpt_truncated [of script_request_example empty_db]
      script_excerpt_truncated [of long_script_request empty_db]
    unfolding short long tk e
    by simp
qed

end
